theory Spec2Isabelle
  imports Complex_Main "HOL-Library.Char_ord" "HOL-Library.List_Lexorder"
begin

chapter \<open>The quiz automation engine\<close>

text \<open>
  A shallow embedding of the three core components of the program: the content extractor
  (\<^verbatim>\<open>scraper.py\<close>), the answer selector (\<^verbatim>\<open>gemini_solver.py\<close>) and the polling loop of
  \<^verbatim>\<open>AutomationController.run_solver_loop\<close> (\<^verbatim>\<open>main.py\<close>). The browser driver and the
  reasoning service are external: what they answer is an input of the model, and every
  exception they can raise is a value of that input. Of the HTML parser, a library too,
  the part that reads text and elements is modelled. Time matters to the rate limit only
  and is a real number there; the waits and sleeps of the loop are not timed.
\<close>

section \<open>Python strings\<close>

text \<open>
  Strings are character lists. The character classes below are those of Python on ASCII
  text: \<^verbatim>\<open>str.isspace\<close> (which includes the separators 0x1C to 0x1F), \<^verbatim>\<open>str.upper\<close> and the
  word characters \<^verbatim>\<open>\w\<close> of the \<^verbatim>\<open>re\<close> module. A character beyond ASCII is no whitespace,
  no word character and is left alone by \<open>upper\<close>.
\<close>

definition isspace :: "char \<Rightarrow> bool" where
  "isspace c = (c \<in> set [CHR 0x09, CHR 0x0A, CHR 0x0B, CHR 0x0C, CHR 0x0D,
                            CHR 0x1C, CHR 0x1D, CHR 0x1E, CHR 0x1F, CHR '' ''])"

definition upper_char :: "char \<Rightarrow> char" where
  "upper_char c =
     (case map_of (zip ''abcdefghijklmnopqrstuvwxyz'' ''ABCDEFGHIJKLMNOPQRSTUVWXYZ'') c of
        Some u \<Rightarrow> u | None \<Rightarrow> c)"

definition isword :: "char \<Rightarrow> bool" where
  "isword c = (c \<in> set (''abcdefghijklmnopqrstuvwxyz'' @ ''ABCDEFGHIJKLMNOPQRSTUVWXYZ''
                            @ ''0123456789_''))"

definition upper :: "string \<Rightarrow> string" where
  "upper s = map upper_char s"

text \<open>\<^verbatim>\<open>s.strip()\<close>: leading and trailing whitespace removed.\<close>

definition strip :: "string \<Rightarrow> string" where
  "strip s = rev (dropWhile isspace (rev (dropWhile isspace s)))"

text \<open>
  \<^verbatim>\<open>s.split()\<close> cuts at runs of whitespace and yields no empty word; \<open>cur\<close> holds the
  word being read, reversed.
\<close>

fun split_acc :: "string \<Rightarrow> string \<Rightarrow> string list" where
  "split_acc cur [] = (if cur = [] then [] else [rev cur])"
| "split_acc cur (c # cs) =
     (if isspace c then (if cur = [] then split_acc [] cs else rev cur # split_acc [] cs)
      else split_acc (c # cur) cs)"

definition split :: "string \<Rightarrow> string list" where
  "split s = split_acc [] s"

text \<open>\<^verbatim>\<open>sep.join(words)\<close>.\<close>

fun join :: "string \<Rightarrow> string list \<Rightarrow> string" where
  "join sep [] = []"
| "join sep [w] = w"
| "join sep (w # v # ws) = w @ sep @ join sep (v # ws)"

section \<open>The answer selector\<close>

subsection \<open>Payload and request\<close>

text \<open>
  A content fragment is text or the bytes of a PNG image. The payload of one question is
  the dictionary \<^verbatim>\<open>scrape_quiz_data\<close> returns; a Python dictionary keeps its keys in
  insertion order, so it is an association list with distinct keys. An interaction handle
  is the identity of a page element.
\<close>

datatype fragment = Text string | Image string

type_synonym handle = nat

record quiz_data =
  question :: "fragment list"
  options :: "(string \<times> fragment list) list"
  option_elements :: "(string \<times> handle) list"

datatype part = TextPart string | BlobPart string string

text \<open>\<^verbatim>\<open>_content_part_from_value\<close>, on the list of fragments of the question or of an option.\<close>

definition content_part_from_value :: "fragment list \<Rightarrow> string \<Rightarrow> part list" where
  "content_part_from_value items label =
     (if label = [] then [] else [TextPart (label @ '':'')])
     @ concat (map (\<lambda>item. case item of
                       Image b \<Rightarrow> [BlobPart ''image/png'' b]
                     | Text t \<Rightarrow> (let text = strip t in if text = [] then [] else [TextPart text]))
                   items)"

definition build_contents :: "quiz_data \<Rightarrow> part list" where
  "build_contents qd =
     [TextPart (''You will receive one question and several answer options. ''
                @ ''Identify the single best answer and respond ONLY with its letter.'')]
     @ content_part_from_value (question qd) ''Question''
     @ concat (map (\<lambda>label. case map_of (options qd) label of
                       None \<Rightarrow> []
                     | Some v \<Rightarrow> content_part_from_value v (''Option '' @ label))
                   (sort (map fst (options qd))))
     @ [TextPart ''Final answer: respond with exactly one capital letter: A, B, C, or D.'']"

subsection \<open>Parsing the reply\<close>

text \<open>
  \<^verbatim>\<open>re.search(r"\b([ABCD])\b", raw)\<close>. A boundary \<^verbatim>\<open>\b\<close> lies between two neighbours of which
  exactly one is a word character, the outside of the string counting as none. The search
  tries the positions from the left; \<open>prev\<close> is the character before the position. The
  result is group 1 of the first match.
\<close>

definition in_ABCD :: "char \<Rightarrow> bool" where
  "in_ABCD ch = (ch \<in> set ''ABCD'')"

definition word_side :: "char option \<Rightarrow> bool" where
  "word_side x = (case x of None \<Rightarrow> False | Some c \<Rightarrow> isword c)"

definition boundary :: "char option \<Rightarrow> char option \<Rightarrow> bool" where
  "boundary l r = (word_side l \<noteq> word_side r)"

definition peek :: "string \<Rightarrow> char option" where
  "peek s = (case s of [] \<Rightarrow> None | d # _ \<Rightarrow> Some d)"

fun re_search :: "char option \<Rightarrow> string \<Rightarrow> string option" where
  "re_search prev [] = None"
| "re_search prev (c # cs) =
     (if boundary prev (Some c) \<and> in_ABCD c \<and> boundary (Some c) (peek cs)
      then Some [c]
      else re_search (Some c) cs)"

text \<open>\<^verbatim>\<open>GeminiSolver._extract_letter\<close>.\<close>

definition extract_letter :: "string \<Rightarrow> string" where
  "extract_letter raw_text =
     (if raw_text = [] then ''A''
      else let raw = upper (strip raw_text) in
        case re_search None raw of
          Some g \<Rightarrow> g
        | None \<Rightarrow> (case find in_ABCD raw of
                      Some ch \<Rightarrow> [ch]
                    | None \<Rightarrow> ''A''))"




subsection \<open>Rate limit and call\<close>

text \<open>
  The solver object holds the configured interval and the time of the last request.
  Time is a real number read from one clock: \<^verbatim>\<open>time.sleep(d)\<close> advances it by \<open>d\<close>, the
  service call by its duration, and nothing else takes time.
\<close>

record solver =
  rate_limit_interval :: real
  last_request_time :: real

text \<open>
  \<^verbatim>\<open>GeminiSolver.__init__\<close>; \<open>client_error\<close> is the exception of the client library's
  set-up, if it raises one.
\<close>

definition GeminiSolver :: "string \<Rightarrow> real \<Rightarrow> string option \<Rightarrow> string + solver" where
  "GeminiSolver api_key interval client_error =
     (if api_key = [] then Inl ''API key is required for GeminiSolver.''
      else case client_error of
             Some e \<Rightarrow> Inl e
           | None \<Rightarrow> Inr \<lparr>rate_limit_interval = interval, last_request_time = 0\<rparr>)"

text \<open>\<^verbatim>\<open>_enforce_rate_limit\<close>, called at clock value \<open>now\<close>: the time it sleeps.\<close>

definition enforce_rate_limit :: "solver \<Rightarrow> real \<Rightarrow> real" where
  "enforce_rate_limit self now =
     (let elapsed = now - last_request_time self;
          remaining = rate_limit_interval self - elapsed
      in if remaining > 0 then remaining else 0)"

text \<open>
  What \<^verbatim>\<open>model.generate_content\<close> does with a request: it takes some time and either
  raises (\<open>Inl\<close>, with the text of the exception) or returns a response object. The code
  reads the response with \<^verbatim>\<open>getattr(response, "text", "") or ""\<close>: the attribute may be
  missing, \<^verbatim>\<open>None\<close> or a string.
\<close>

datatype response = NoTextAttribute | TextNone | TextStr string

record service_call =
  duration :: real
  outcome :: "string + response"

definition response_text :: "response \<Rightarrow> string" where
  "response_text r = (case r of TextStr t \<Rightarrow> t | _ \<Rightarrow> [])"

record answer_result =
  answer :: string
  solver_after :: solver
  slept :: real
  request_time :: real
  finish_time :: real
  printed :: "string list"

text \<open>\<^verbatim>\<open>GeminiSolver.get_answer\<close>, called at clock value \<open>now\<close>.\<close>

definition get_answer ::
  "solver \<Rightarrow> real \<Rightarrow> (part list \<Rightarrow> service_call) \<Rightarrow> quiz_data \<Rightarrow> answer_result" where
  "get_answer self now generate_content qd =
     (let pause = enforce_rate_limit self now;
          issued = now + pause;
          call = generate_content (build_contents qd);
          returned = issued + duration call
      in case outcome call of
           Inl e \<Rightarrow>
             \<lparr>answer = ''A'', solver_after = self, slept = pause,
              request_time = issued, finish_time = returned,
              printed = [''[GeminiSolver] Error calling Gemini API: '' @ e,
                         ''[GeminiSolver] Model chose answer: A'']\<rparr>
         | Inr response \<Rightarrow>
             (let letter = extract_letter (response_text response) in
              \<lparr>answer = letter,
               solver_after = self\<lparr>last_request_time := returned\<rparr>, slept = pause,
               request_time = issued, finish_time = returned,
               printed = [''[GeminiSolver] Model chose answer: '' @ letter]\<rparr>))"

section \<open>The content extractor\<close>

subsection \<open>The HTML parser\<close>

text \<open>
  \<^verbatim>\<open>BeautifulSoup(html_content, "html.parser")\<close> belongs to a library. The model below
  covers the part of HTML the normalisation is about: text and elements. A tag starts at
  a \<^verbatim>\<open><\<close> that is followed by a letter (or by \<^verbatim>\<open>/\<close> and a letter) and closed by a later
  \<^verbatim>\<open>>\<close>; its name is lowercased and its attributes are dropped; any other \<^verbatim>\<open><\<close> is text.
  An end tag closes the innermost open element of its name and is ignored when there is
  none; elements still open at the end are closed there; void elements have no content.
  Comments, declarations and character references (\<^verbatim>\<open>&amp;\<close>) are outside the model.
\<close>

datatype node = NavigableString string | Tag string "node list"

datatype token = Data string | StartTag string | EndTag string

definition isalpha :: "char \<Rightarrow> bool" where
  "isalpha c = (c \<in> set (''abcdefghijklmnopqrstuvwxyz'' @ ''ABCDEFGHIJKLMNOPQRSTUVWXYZ''))"

definition lower_char :: "char \<Rightarrow> char" where
  "lower_char c =
     (case map_of (zip ''ABCDEFGHIJKLMNOPQRSTUVWXYZ'' ''abcdefghijklmnopqrstuvwxyz'') c of
        Some l \<Rightarrow> l | None \<Rightarrow> c)"

definition opens_tag :: "string \<Rightarrow> bool" where
  "opens_tag cs =
     (CHR ''>'' \<in> set cs \<and>
      (case cs of
         [] \<Rightarrow> False
       | a # rest \<Rightarrow> isalpha a \<or> (a = CHR ''/'' \<and> (case rest of [] \<Rightarrow> False | b # _ \<Rightarrow> isalpha b))))"

definition tag_name :: "string \<Rightarrow> string" where
  "tag_name t = map lower_char (takeWhile (\<lambda>c. \<not> isspace c \<and> c \<noteq> CHR ''/'') t)"

definition tag_token :: "string \<Rightarrow> token" where
  "tag_token t =
     (case t of
        [] \<Rightarrow> Data ''<>''
      | c # rest \<Rightarrow> if c = CHR ''/'' then EndTag (tag_name rest) else StartTag (tag_name t))"

definition flush :: "string \<Rightarrow> token list" where
  "flush pending = (if pending = [] then [] else [Data (rev pending)])"

text \<open>
  The tokenizer: \<open>pending\<close> is the text read so far and \<open>tag\<close> the inside of the tag being
  read, both reversed.
\<close>

fun tokenize :: "string \<Rightarrow> string option \<Rightarrow> string \<Rightarrow> token list" where
  "tokenize pending tag [] = flush pending"
| "tokenize pending None (c # cs) =
     (if c = CHR ''<'' \<and> opens_tag cs then flush pending @ tokenize [] (Some []) cs
      else tokenize (c # pending) None cs)"
| "tokenize pending (Some t) (c # cs) =
     (if c = CHR ''>'' then tag_token (rev t) # tokenize [] None cs
      else tokenize pending (Some (c # t)) cs)"

definition void_elements :: "string list" where
  "void_elements = [''area'', ''base'', ''br'', ''col'', ''embed'', ''hr'', ''img'', ''input'',
                    ''link'', ''meta'', ''source'', ''track'', ''wbr'']"

text \<open>
  The tree builder keeps the finished nodes of the current element (reversed) and a stack
  of the open elements, each with the finished siblings before it.
\<close>

type_synonym frame = "string \<times> node list"

fun pop_to_tag :: "string \<Rightarrow> node list \<Rightarrow> frame list \<Rightarrow> node list \<times> frame list" where
  "pop_to_tag name done [] = (done, [])"
| "pop_to_tag name done ((m, before) # stack) =
     (if m = name then (Tag m (rev done) # before, stack)
      else pop_to_tag name (Tag m (rev done) # before) stack)"

fun build :: "token list \<Rightarrow> node list \<Rightarrow> frame list \<Rightarrow> node list" where
  "build [] done [] = rev done"
| "build [] done ((m, before) # stack) = build [] (Tag m (rev done) # before) stack"
| "build (Data s # ts) done stack = build ts (NavigableString s # done) stack"
| "build (StartTag name # ts) done stack =
     (if name \<in> set void_elements then build ts (Tag name [] # done) stack
      else build ts [] ((name, done) # stack))"
| "build (EndTag name # ts) done stack =
     (if name \<in> set (map fst stack)
      then (case pop_to_tag name done stack of (done', stack') \<Rightarrow> build ts done' stack')
      else build ts done stack)"

definition BeautifulSoup :: "string \<Rightarrow> node list" where
  "BeautifulSoup markup = build (tokenize [] None markup) [] []"

subsection \<open>Text normalisation\<close>

text \<open>All strings below a node, in document order.\<close>

fun strings :: "node \<Rightarrow> string list" where
  "strings (NavigableString s) = [s]"
| "strings (Tag name children) = concat (map strings children)"

definition get_text :: "string \<Rightarrow> node list \<Rightarrow> string" where
  "get_text separator nodes = join separator (concat (map strings nodes))"

definition is_tag :: "string \<Rightarrow> node \<Rightarrow> bool" where
  "is_tag name n = (case n of NavigableString _ \<Rightarrow> False | Tag m _ \<Rightarrow> m = name)"

text \<open>
  The loop over \<^verbatim>\<open>find_all(name)\<close> sets the content of each such element to the prefix and
  its text and unwraps it, the outer elements first. Setting the content of an element
  detaches its children; \<^verbatim>\<open>unwrap\<close> raises \<^verbatim>\<open>ValueError\<close> on an element without a parent,
  which is what a \<open>name\<close> element directly inside another one has become by then.
\<close>

fun unwrap_fails :: "string \<Rightarrow> node \<Rightarrow> bool" where
  "unwrap_fails name (NavigableString s) = False"
| "unwrap_fails name (Tag m children) =
     ((m = name \<and> (\<exists>c \<in> set children. is_tag name c))
      \<or> (\<exists>c \<in> set children. unwrap_fails name c))"

fun unwrap_all :: "string \<Rightarrow> string \<Rightarrow> node \<Rightarrow> node list" where
  "unwrap_all name prefix (NavigableString s) = [NavigableString s]"
| "unwrap_all name prefix (Tag m children) =
     (if m = name then [NavigableString (prefix @ get_text [] children)]
      else [Tag m (concat (map (unwrap_all name prefix) children))])"

datatype exn =
    TimeoutException string
  | StaleElementReferenceException string
  | WebDriverException string
  | Exception string


definition unwrap_error :: exn where
  "unwrap_error = Exception (''Cannot replace an element with its contents when that''
                             @ ''element is not part of a tree.'')"

text \<open>\<^verbatim>\<open>parse_math_expressions\<close>; the argument is \<^verbatim>\<open>None\<close> or a string.\<close>

definition parse_math_expressions :: "string option \<Rightarrow> exn + string" where
  "parse_math_expressions html_content =
     (case html_content of
        None \<Rightarrow> Inr []
      | Some markup \<Rightarrow>
          if markup = [] then Inr []
          else let soup = BeautifulSoup markup in
            if \<exists>n \<in> set soup. unwrap_fails ''sup'' n then Inl unwrap_error
            else let soup1 = concat (map (unwrap_all ''sup'' ''^'') soup) in
              if \<exists>n \<in> set soup1. unwrap_fails ''sub'' n then Inl unwrap_error
              else let soup2 = concat (map (unwrap_all ''sub'' ''_'') soup1);
                       text_content = get_text '' '' soup2
                   in Inr (join '' '' (split text_content)))"




subsection \<open>Configuration constants\<close>

text \<open>The selectors and labels of \<^verbatim>\<open>config.py\<close> that no setting overrides.\<close>

definition QUESTION_CLASS :: string where
  "QUESTION_CLASS = ''question''"

definition BOOSTER_QUESTION_CLASS :: string where
  "BOOSTER_QUESTION_CLASS = ''boosterQuestion''"



definition SUPPORTED_OPTION_LABELS :: "string list" where
  "SUPPORTED_OPTION_LABELS = [''A'', ''B'', ''C'', ''D'']"

subsection \<open>Page elements\<close>

text \<open>
  What the driver answers is part of the page: each call on an element either raises
  (\<open>Inl\<close>) or returns. An attribute that returns may be \<^verbatim>\<open>None\<close>.
\<close>

record image =
  is_displayed :: "exn + bool"
  screenshot_as_png :: "exn + string"

record element =
  innerHTML :: "exn + string option"
  rendered_text :: "exn + string option"
  img_elements :: "exn + image list"

text \<open>
  An option card: its handle, the text of its label box (\<open>Inl\<close> when the box is not found
  or reading it raises), its \<^verbatim>\<open>option-text\<close> child (\<open>Inl\<close> when there is none) and the card
  as an element of its own.
\<close>

record card =
  card_handle :: handle
  label_text :: "exn + string option"
  option_text :: "exn + element"
  card_element :: element

text \<open>
  The page at the moment the waits of \<^verbatim>\<open>scrape_quiz_data\<close> end: the visible element of a
  class, or the exception of the wait (\<^verbatim>\<open>TimeoutException\<close> when there is none), and the
  option cards present.
\<close>

record page =
  visible_element :: "string \<Rightarrow> exn + element"
  present_cards :: "exn + card list"

subsection \<open>Extraction\<close>

definition or_empty :: "string option \<Rightarrow> string" where
  "or_empty t = (case t of None \<Rightarrow> [] | Some s \<Rightarrow> s)"

definition text_fragment :: "string \<Rightarrow> fragment list" where
  "text_fragment t = (if t = [] then [] else [Text t])"

definition image_fragments :: "element \<Rightarrow> fragment list" where
  "image_fragments el =
     (case img_elements el of
        Inl _ \<Rightarrow> []
      | Inr images \<Rightarrow>
          concat (map (\<lambda>img. case is_displayed img of
                          Inr True \<Rightarrow> (case screenshot_as_png img of
                                        Inr png \<Rightarrow> [Image png]
                                      | Inl _ \<Rightarrow> [])
                        | _ \<Rightarrow> [])
                      images))"

text \<open>
  \<^verbatim>\<open>_extract_element_content\<close>. The handler of the first \<^verbatim>\<open>try\<close> reads \<^verbatim>\<open>element.text\<close>
  outside any \<^verbatim>\<open>try\<close>, so an exception of that read leaves the function.
\<close>

definition extract_element_content :: "element \<Rightarrow> exn + fragment list" where
  "extract_element_content el =
     (let parsed = (case innerHTML el of
                      Inl e \<Rightarrow> Inl e
                    | Inr raw_html \<Rightarrow> parse_math_expressions raw_html)
      in case parsed of
           Inr t \<Rightarrow> Inr (text_fragment t @ image_fragments el)
         | Inl _ \<Rightarrow>
             (case rendered_text el of
                Inl e \<Rightarrow> Inl e
              | Inr t \<Rightarrow> Inr (text_fragment (strip (or_empty t)) @ image_fragments el)))"

text \<open>
  \<^verbatim>\<open>d[k] = v\<close> on a dictionary: the value of a key that is there is replaced in place, a
  new key goes to the end.
\<close>

fun dict_set :: "'k \<Rightarrow> 'v \<Rightarrow> ('k \<times> 'v) list \<Rightarrow> ('k \<times> 'v) list" where
  "dict_set k v [] = [(k, v)]"
| "dict_set k v ((k', v') # d) = (if k' = k then (k, v) # d else (k', v') # dict_set k v d)"

text \<open>The label of a card as the loop computes it, when it is a supported one.\<close>

definition card_label :: "card \<Rightarrow> string option" where
  "card_label c =
     (case label_text c of
        Inl _ \<Rightarrow> None
      | Inr t \<Rightarrow> (let label = upper (strip (or_empty t))
                 in if label \<in> set SUPPORTED_OPTION_LABELS then Some label else None))"

text \<open>The loop over the option cards of \<^verbatim>\<open>scrape_quiz_data\<close>, with its two dictionaries.\<close>

fun scrape_cards ::
  "card list \<Rightarrow> (string \<times> fragment list) list \<Rightarrow> (string \<times> handle) list
   \<Rightarrow> exn + ((string \<times> fragment list) list \<times> (string \<times> handle) list)" where
  "scrape_cards [] options_data elements = Inr (options_data, elements)"
| "scrape_cards (c # cards) options_data elements =
     (case card_label c of
        None \<Rightarrow> scrape_cards cards options_data elements
      | Some label \<Rightarrow>
          (let content_element = (case option_text c of Inl _ \<Rightarrow> card_element c | Inr el \<Rightarrow> el)
           in case extract_element_content content_element of
                Inl e \<Rightarrow> Inl e
              | Inr content \<Rightarrow>
                  scrape_cards cards (dict_set label content options_data)
                    (dict_set label (card_handle c) elements)))"

text \<open>
  \<^verbatim>\<open>wait.until(EC.presence_of_all_elements_located(...))\<close> returns a list that is not empty
  or times out.
\<close>

definition wait_for_cards :: "page \<Rightarrow> exn + card list" where
  "wait_for_cards driver =
     (case present_cards driver of
        Inl e \<Rightarrow> Inl e
      | Inr cards \<Rightarrow> if cards = [] then Inl (TimeoutException []) else Inr cards)"

definition no_options_error :: exn where
  "no_options_error = Exception ''No valid options (A-D) found on the page.''"

text \<open>\<^verbatim>\<open>scrape_quiz_data\<close>.\<close>

definition scrape_quiz_data :: "page \<Rightarrow> string \<Rightarrow> exn + quiz_data" where
  "scrape_quiz_data driver mode =
     (let question_class = (if mode = ''booster'' then BOOSTER_QUESTION_CLASS else QUESTION_CLASS)
      in case visible_element driver question_class of
           Inl e \<Rightarrow> Inl e
         | Inr question_element \<Rightarrow>
             (case extract_element_content question_element of
                Inl e \<Rightarrow> Inl e
              | Inr question_content \<Rightarrow>
                  (case wait_for_cards driver of
                     Inl e \<Rightarrow> Inl e
                   | Inr option_cards \<Rightarrow>
                       (case scrape_cards option_cards [] [] of
                          Inl e \<Rightarrow> Inl e
                        | Inr (options_data, elements) \<Rightarrow>
                            if options_data = [] then Inl no_options_error
                            else Inr \<lparr>question = question_content, options = options_data,
                                      option_elements = elements\<rparr>))))"

text \<open>The elements of a list in the order of their first occurrence.\<close>

fun first_seen :: "'a list \<Rightarrow> 'a list" where
  "first_seen [] = []"
| "first_seen (x # xs) = x # filter (\<lambda>y. y \<noteq> x) (first_seen xs)"

text \<open>The labels of a scrape that succeeded, in the order of the dictionary.\<close>

definition option_labels :: "exn + quiz_data \<Rightarrow> string list" where
  "option_labels r = (case r of Inl _ \<Rightarrow> [] | Inr qd \<Rightarrow> map fst (options qd))"

text \<open>Example pages: an element with plain text, and a card with a label.\<close>

definition plain_element :: "string \<Rightarrow> element" where
  "plain_element t = \<lparr>innerHTML = Inr (Some t), rendered_text = Inr (Some t),
                      img_elements = Inr []\<rparr>"

definition plain_card :: "handle \<Rightarrow> string \<Rightarrow> string \<Rightarrow> card" where
  "plain_card h label t = \<lparr>card_handle = h, label_text = Inr (Some label),
                           option_text = Inr (plain_element t),
                           card_element = plain_element (label @ t)\<rparr>"

definition plain_page :: "string \<Rightarrow> card list \<Rightarrow> page" where
  "plain_page q cards =
     \<lparr>visible_element = (\<lambda>cls. if cls = QUESTION_CLASS then Inr (plain_element q)
                                 else Inl (TimeoutException [])),
      present_cards = Inr cards\<rparr>"

section \<open>The automation loop\<close>

subsection \<open>Settings, outcomes and events\<close>


text \<open>
  A run ends in one of four ways. The source tells them apart by the line it logs when it
  leaves the loop; the model names them.
\<close>

datatype outcome = Completed | StoppedByUser | Disconnected | Failed


text \<open>
  The observable steps of a run: a line put on the log queue, a read of the stop signal
  with its value, a call of \<^verbatim>\<open>scrape_quiz_data\<close>, a call of \<^verbatim>\<open>get_answer\<close>, and a click that
  was carried out.
\<close>

datatype target = OptionCard handle | ActionButton | CloseButton | PopupButton | YesButton

datatype event = Log string | StopCheck bool | Scrape | Solve | Click target

definition quoted :: "string \<Rightarrow> string" where
  "quoted s = [CHR 0x27] @ s @ [CHR 0x27]"





subsection \<open>Waiting for the question\<close>

text \<open>
  One slice of the wait: the stop signal as it is read at the start of the slice, what the
  Booster probes of the page find, and the page that \<^verbatim>\<open>scrape_quiz_data\<close> reads. A button
  is \<open>Ready\<close> when it is displayed and enabled and its click succeeds, \<open>Unavailable\<close> when
  it is not displayed or not enabled, and \<open>Faulty\<close> when a call on it raises.
\<close>

datatype button = Ready | Unavailable | Faulty

text \<open>
  A popup overlay: reading \<^verbatim>\<open>is_displayed\<close> raises, or it is hidden, or it is shown; a shown
  popup has no usable button (none found, or not displayed, or a call on it raises), or a
  button whose click succeeds, or a displayed button whose click raises.
\<close>

datatype popup_button = NoButton | ButtonClicks | ButtonClickFails

datatype popup = PopupBroken | PopupHidden | PopupShown popup_button

record slice =
  stop_set :: bool
  finished_elements :: "exn + bool"
  close_buttons :: "exn + button list"
  popup_overlays :: "exn + popup list"
  page :: page








subsection \<open>Selecting and clicking the option\<close>





subsection \<open>The action button\<close>









subsection \<open>One cycle and the run\<close>


text \<open>The body after the payload is there: solve, select, click, act.\<close>

definition solver_line :: "string \<Rightarrow> event" where
  "solver_line answer_letter =
     Log (''[SOLVER] Gemini selected answer option: '' @ quoted answer_letter @ ''.'')"







subsection \<open>The order of the steps of a run\<close>

text \<open>
  The phases a run goes through, as far as the stop signal is concerned: nothing read yet
  (\<open>Idle\<close>); the signal just read and found clear, with nothing but probes of the Booster
  screens since (\<open>Checked\<close>); a scrape attempted and the cycle under way (\<open>Working\<close>); the
  option clicked (\<open>Picked\<close>); the action button clicked (\<open>Committed\<close>); the signal read
  and found set (\<open>Halted\<close>).
  \<open>observe\<close> tells which step may be taken in which phase and where it leads: a scrape only
  right after a clear check, the solver and one option click only in a cycle under way, one
  click of the action button only after the option click, the confirmation only after
  that, and after a set signal nothing but log lines.
\<close>

datatype phase = Idle | Checked | Working | Picked | Committed | Halted

fun observe :: "phase \<Rightarrow> event \<Rightarrow> phase option" where
  "observe p (Log line) = Some p"
| "observe p (StopCheck is_set) =
     (if p = Halted then None else Some (if is_set then Halted else Checked))"
| "observe p Scrape = (if p = Checked then Some Working else None)"
| "observe p Solve = (if p = Working then Some Working else None)"
| "observe p (Click (OptionCard h)) = (if p = Working then Some Picked else None)"
| "observe p (Click ActionButton) = (if p = Picked then Some Committed else None)"
| "observe p (Click YesButton) = (if p = Committed then Some Committed else None)"
| "observe p (Click CloseButton) = (if p = Checked then Some Checked else None)"
| "observe p (Click PopupButton) = (if p = Checked then Some Checked else None)"

fun observe_all :: "phase \<Rightarrow> event list \<Rightarrow> phase option" where
  "observe_all p [] = Some p"
| "observe_all p (e # es) = (case observe p e of None \<Rightarrow> None | Some q \<Rightarrow> observe_all q es)"

definition is_log :: "event \<Rightarrow> bool" where
  "is_log e = (case e of Log _ \<Rightarrow> True | _ \<Rightarrow> False)"











section \<open>Properties of the answer selector\<close>

subsection \<open>Character classes\<close>








subsection \<open>Stripping does not change what the search finds\<close>









subsection \<open>The search finds the first standalone letter\<close>








subsection \<open>The selector\<close>



subsection \<open>The rate limit\<close>

lemma enforce_rate_limit_deficit:
  "now - last_request_time self < rate_limit_interval self \<Longrightarrow>
   enforce_rate_limit self now = rate_limit_interval self - (now - last_request_time self)"
  by (simp add: enforce_rate_limit_def Let_def)

lemma enforce_rate_limit_no_sleep:
  "rate_limit_interval self \<le> now - last_request_time self \<Longrightarrow> enforce_rate_limit self now = 0"
  by (simp add: enforce_rate_limit_def Let_def)

lemma request_time_after_last:
  "last_request_time self + rate_limit_interval self
   \<le> request_time (get_answer self now generate_content qd)"
  by (cases "outcome (generate_content (build_contents qd))")
     (simp_all add: get_answer_def enforce_rate_limit_def Let_def)

text \<open>
  After a request that succeeded, the next request is issued at least one interval after
  the first one was: the time of its return is recorded.
\<close>

lemma rate_limit_gap_after_success:
  assumes ok: "outcome (generate_content (build_contents qd)) = Inr r"
    and dur: "0 \<le> duration (generate_content (build_contents qd))"
  shows "request_time (get_answer self now generate_content qd) + rate_limit_interval self
         \<le> request_time (get_answer (solver_after (get_answer self now generate_content qd))
                          now' generate_content' qd')"
proof -
  let ?r = "get_answer self now generate_content qd"
  have "last_request_time (solver_after ?r) = finish_time ?r"
    using ok by (simp add: get_answer_def Let_def)
  moreover have "request_time ?r \<le> finish_time ?r"
    using ok dur by (simp add: get_answer_def Let_def)
  moreover have "rate_limit_interval (solver_after ?r) = rate_limit_interval self"
    using ok by (simp add: get_answer_def Let_def)
  ultimately show ?thesis
    using request_time_after_last [of "solver_after ?r" now' generate_content' qd'] by simp
qed

text \<open>
  Claim C3. Two consecutive calls on one solver with an interval of 2 seconds, whose last
  request returned at time 999: the first call is made at time 1000, sleeps the deficit of
  one second, and its request, issued at 1001, fails after a tenth of a second; the second
  call is made as soon as the first has returned. A failed request leaves
  \<open>last_request_time\<close> as it was, so the second call does not sleep and its request
  leaves a tenth of a second after the first one, not two seconds.
\<close>

theorem rate_limit_after_failed_request:
  "(let self = \<lparr>rate_limit_interval = 2, last_request_time = 999\<rparr>;
        failing = (\<lambda>_. \<lparr>duration = 1 / 10, outcome = Inl ''503 unavailable''\<rparr>);
        qd = \<lparr>question = [Text ''2+2=?''], options = [(''A'', [Text ''3'']), (''B'', [Text ''4''])],
              option_elements = [(''A'', 10), (''B'', 20)]\<rparr>;
        first = get_answer self 1000 failing qd;
        second = get_answer (solver_after first) (finish_time first) failing qd
    in slept first = 1
       \<and> request_time first = 1001
       \<and> answer first = ''A''
       \<and> solver_after first = self
       \<and> slept second = 0
       \<and> request_time second - request_time first = 1 / 10
       \<and> request_time second - request_time first < rate_limit_interval self)"
proof -
  let ?self = "\<lparr>rate_limit_interval = 2, last_request_time = 999\<rparr>"
  let ?failing = "\<lambda>_ :: part list. \<lparr>duration = 1 / 10, outcome = Inl ''503 unavailable''\<rparr>"
  have pause: "enforce_rate_limit ?self 1000 = 1"
    by (simp add: enforce_rate_limit_def Let_def)
  have first: "get_answer ?self 1000 ?failing qd
      = \<lparr>answer = ''A'', solver_after = ?self, slept = 1, request_time = 1001,
         finish_time = 10011 / 10,
         printed = [''[GeminiSolver] Error calling Gemini API: 503 unavailable'',
                    ''[GeminiSolver] Model chose answer: A'']\<rparr>" for qd
    by (simp add: get_answer_def pause Let_def)
  have no_pause: "enforce_rate_limit ?self (10011 / 10) = 0"
    by (simp add: enforce_rate_limit_def Let_def)
  have second: "get_answer ?self (10011 / 10) ?failing qd
      = \<lparr>answer = ''A'', solver_after = ?self, slept = 0, request_time = 10011 / 10,
         finish_time = 5006 / 5,
         printed = [''[GeminiSolver] Error calling Gemini API: 503 unavailable'',
                    ''[GeminiSolver] Model chose answer: A'']\<rparr>" for qd
    by (simp add: get_answer_def no_pause Let_def)
  show ?thesis
    by (simp add: Let_def first second)
qed

section \<open>Properties of the content extractor\<close>

subsection \<open>The two dictionaries of a scrape\<close>

lemma keys_dict_set:
  "map fst (dict_set k v d) = (if k \<in> set (map fst d) then map fst d else map fst d @ [k])"
proof (induction d)
  case Nil
  show ?case by simp
next
  case (Cons p d)
  obtain k' v' where p: "p = (k', v')" by (cases p)
  show ?case
  proof (cases "k' = k")
    case True
    with p show ?thesis by simp
  next
    case False
    with p Cons show ?thesis by (cases "k \<in> set (map fst d)") simp_all
  qed
qed

lemma first_seen_step:
  "(if l \<in> set ks then ks else ks @ [l])
     @ filter (\<lambda>y. y \<notin> set (if l \<in> set ks then ks else ks @ [l])) (first_seen ls)
   = ks @ filter (\<lambda>y. y \<notin> set ks) (first_seen (l # ls))"
proof (cases "l \<in> set ks")
  case True
  then have "filter (\<lambda>y. y \<notin> set ks \<and> y \<noteq> l) (first_seen ls)
             = filter (\<lambda>y. y \<notin> set ks) (first_seen ls)"
    by (intro filter_cong) auto
  with True show ?thesis by (simp add: conj_commute)
next
  case False
  then show ?thesis by (simp add: conj_commute)
qed

lemma card_label_supported: "card_label c = Some l \<Longrightarrow> l \<in> set SUPPORTED_OPTION_LABELS"
  by (auto simp: card_label_def Let_def split: sum.splits if_splits)

lemma scrape_cards_keys:
  "scrape_cards cards od oe = Inr (od', oe') \<Longrightarrow>
   map fst od' = map fst od
                 @ filter (\<lambda>y. y \<notin> set (map fst od)) (first_seen (List.map_filter card_label cards))
   \<and> map fst oe' = map fst oe
                 @ filter (\<lambda>y. y \<notin> set (map fst oe)) (first_seen (List.map_filter card_label cards))"
proof (induction cards arbitrary: od oe)
  case Nil
  then show ?case by (simp add: map_filter_simps)
next
  case (Cons c cards)
  show ?case
  proof (cases "card_label c")
    case None
    with Cons show ?thesis by (simp add: map_filter_simps)
  next
    case (Some l)
    let ?el = "case option_text c of Inl _ \<Rightarrow> card_element c | Inr el \<Rightarrow> el"
    from Cons.prems Some obtain content where
      rest: "scrape_cards cards (dict_set l content od) (dict_set l (card_handle c) oe)
             = Inr (od', oe')"
      by (cases "extract_element_content ?el") (simp_all add: Let_def)
    have step: "first_seen (List.map_filter card_label (c # cards))
                = first_seen (l # List.map_filter card_label cards)"
      using Some by (simp add: map_filter_simps)
    show ?thesis
      using Cons.IH [OF rest]
      unfolding step keys_dict_set
      using first_seen_step [of l "map fst od" "List.map_filter card_label cards"]
        first_seen_step [of l "map fst oe" "List.map_filter card_label cards"]
      by simp
  qed
qed

lemma set_first_seen: "set (first_seen xs) = set xs"
  by (induction xs) auto

lemma distinct_first_seen: "distinct (first_seen xs)"
  by (induction xs) (auto simp: set_first_seen)

lemma first_seen_remdups: "first_seen xs = rev (remdups (rev xs))"
proof (induction xs)
  case Nil
  show ?case by simp
next
  case (Cons x xs)
  have "remdups (ys @ [x]) = filter (\<lambda>y. y \<noteq> x) (remdups ys) @ [x]" for ys
    by (induction ys) auto
  with Cons show ?case by (simp add: rev_filter)
qed

lemma scrape_quiz_data_keys:
  assumes "scrape_quiz_data driver mode = Inr qd"
  shows "\<exists>cards. present_cards driver = Inr cards
           \<and> map fst (options qd) = first_seen (List.map_filter card_label cards)
           \<and> map fst (option_elements qd) = first_seen (List.map_filter card_label cards)
           \<and> options qd \<noteq> []"
proof -
  let ?cls = "if mode = ''booster'' then BOOSTER_QUESTION_CLASS else QUESTION_CLASS"
  from assms obtain q where q: "visible_element driver ?cls = Inr q"
    by (cases "visible_element driver ?cls") (simp_all add: scrape_quiz_data_def)
  from assms q obtain qc where qc: "extract_element_content q = Inr qc"
    by (cases "extract_element_content q") (simp_all add: scrape_quiz_data_def)
  from assms q qc obtain cards where w: "wait_for_cards driver = Inr cards"
    by (cases "wait_for_cards driver") (simp_all add: scrape_quiz_data_def)
  then have present: "present_cards driver = Inr cards"
    by (auto simp: wait_for_cards_def split: sum.splits if_splits)
  from assms q qc w obtain od oe where sc: "scrape_cards cards [] [] = Inr (od, oe)"
    by (cases "scrape_cards cards [] []") (auto simp: scrape_quiz_data_def)
  from assms q qc w sc have qd: "od \<noteq> []" "options qd = od" "option_elements qd = oe"
    by (auto simp: scrape_quiz_data_def split: if_splits)
  from scrape_cards_keys [OF sc] qd present show ?thesis by simp
qed


lemmas page_eval =
  scrape_quiz_data_def plain_page_def plain_card_def plain_element_def wait_for_cards_def
  extract_element_content_def parse_math_expressions_def BeautifulSoup_def opens_tag_def
  flush_def get_text_def split_def text_fragment_def image_fragments_def card_label_def
  or_empty_def upper_def upper_char_def strip_def isspace_def
  QUESTION_CLASS_def BOOSTER_QUESTION_CLASS_def SUPPORTED_OPTION_LABELS_def Let_def


text \<open>
  Claim C5, as stated, fails: two cards labelled b and a, in this order on the page, give
  a dictionary whose keys are B, A. The keys are uppercase, but their order is the order of
  the cards, not that of the alphabet.
\<close>

theorem scrape_labels_not_alphabetical:
  "option_labels (scrape_quiz_data
      (plain_page ''2+2=?'' [plain_card 1 ''b'' ''4'', plain_card 2 ''a'' ''3'']) ''standard'')
     = [''B'', ''A'']
   \<and> \<not> sorted (option_labels (scrape_quiz_data
      (plain_page ''2+2=?'' [plain_card 1 ''b'' ''4'', plain_card 2 ''a'' ''3'']) ''standard''))"
proof -
  have "option_labels (scrape_quiz_data
      (plain_page ''2+2=?'' [plain_card 1 ''b'' ''4'', plain_card 2 ''a'' ''3'']) ''standard'')
     = [''B'', ''A'']"
    by (simp add: page_eval option_labels_def)
  moreover have "\<not> sorted [''B'', ''A'']"
    by (simp add: less_eq_char_def)
  ultimately show ?thesis by simp
qed

text \<open>
  Claim C5, amended. The keys of the option dictionary of a payload are uppercase, and
  their order is the order in which the labels first occur among the option cards of the
  page (which is the order of the alphabet when the page lists its options so).
\<close>

theorem scrape_labels_in_page_order:
  assumes "scrape_quiz_data driver mode = Inr qd"
    and "present_cards driver = Inr cards"
  shows "map fst (options qd) = first_seen (List.map_filter card_label cards)
         \<and> list_all (\<lambda>k. upper k = k) (map fst (options qd))"
proof -
  from scrape_quiz_data_keys [OF assms(1)] assms(2)
  have keys: "map fst (options qd) = first_seen (List.map_filter card_label cards)"
    by auto
  have "upper k = k" if "k \<in> set (map fst (options qd))" for k
  proof -
    from that have "k \<in> set SUPPORTED_OPTION_LABELS"
      unfolding keys set_first_seen
      by (auto simp: map_filter_def dest: card_label_supported)
    then show ?thesis
      by (auto simp: SUPPORTED_OPTION_LABELS_def upper_def upper_char_def)
  qed
  with keys show ?thesis by (simp add: list_all_iff)
qed

theorem scrape_labels_in_page_order_witness:
  "(let cards = [plain_card 1 ''b'' ''4'', plain_card 2 ''a'' ''3'', plain_card 3 ''B'' ''5''];
        driver = plain_page ''2+2=?'' cards;
        qd = \<lparr>question = [Text ''2+2=?''],
              options = [(''B'', [Text ''5'']), (''A'', [Text ''3''])],
              option_elements = [(''B'', 3), (''A'', 2)]\<rparr>
    in scrape_quiz_data driver ''standard'' = Inr qd
       \<and> present_cards driver = Inr cards
       \<and> List.map_filter card_label cards = [''B'', ''A'', ''B'']
       \<and> map fst (options qd) = first_seen (List.map_filter card_label cards)
       \<and> list_all (\<lambda>k. upper k = k) (map fst (options qd)))"
proof -
  let ?cards = "[plain_card 1 ''b'' ''4'', plain_card 2 ''a'' ''3'', plain_card 3 ''B'' ''5'']"
  let ?qd = "\<lparr>question = [Text ''2+2=?''],
              options = [(''B'', [Text ''5'']), (''A'', [Text ''3''])],
              option_elements = [(''B'', 3), (''A'', 2)]\<rparr>"
  have a: "scrape_quiz_data (plain_page ''2+2=?'' ?cards) ''standard'' = Inr ?qd"
    by (simp add: page_eval)
  have b: "present_cards (plain_page ''2+2=?'' ?cards) = Inr ?cards"
    by (simp add: plain_page_def)
  have c: "List.map_filter card_label ?cards = [''B'', ''A'', ''B'']"
    by (simp add: page_eval map_filter_simps)
  show ?thesis
    using a b c scrape_labels_in_page_order [OF a b] by (simp add: Let_def)
qed

text \<open>
  Claim C10. In a payload that \<open>scrape_quiz_data\<close> returns, the option contents and the
  option handles have the same keys in the same order, so a label has a content exactly
  when it has a handle.
\<close>

theorem scrape_options_and_handles_agree:
  assumes "scrape_quiz_data driver mode = Inr qd"
  shows "map fst (options qd) = map fst (option_elements qd)
         \<and> (\<forall>label. (map_of (options qd) label = None)
                    = (map_of (option_elements qd) label = None))"
proof -
  from scrape_quiz_data_keys [OF assms]
  have keys: "map fst (options qd) = map fst (option_elements qd)"
    by auto
  then have "fst ` set (options qd) = fst ` set (option_elements qd)"
    by (metis set_map)
  with keys show ?thesis by (simp add: map_of_eq_None_iff)
qed

theorem scrape_options_and_handles_agree_witness:
  "(let driver = plain_page ''2+2=?'' [plain_card 7 ''c'' ''5'', plain_card 8 ''a'' ''3''];
        qd = \<lparr>question = [Text ''2+2=?''],
              options = [(''C'', [Text ''5'']), (''A'', [Text ''3''])],
              option_elements = [(''C'', 7), (''A'', 8)]\<rparr>
    in scrape_quiz_data driver ''standard'' = Inr qd
       \<and> map fst (options qd) = map fst (option_elements qd)
       \<and> map_of (option_elements qd) ''C'' = Some 7
       \<and> map_of (option_elements qd) ''B'' = None \<and> map_of (options qd) ''B'' = None)"
proof -
  let ?d = "plain_page ''2+2=?'' [plain_card 7 ''c'' ''5'', plain_card 8 ''a'' ''3'']"
  let ?qd = "\<lparr>question = [Text ''2+2=?''],
              options = [(''C'', [Text ''5'']), (''A'', [Text ''3''])],
              option_elements = [(''C'', 7), (''A'', 8)]\<rparr>"
  have a: "scrape_quiz_data ?d ''standard'' = Inr ?qd"
    by (simp add: page_eval)
  show ?thesis
    using a scrape_options_and_handles_agree [OF a] by (simp add: Let_def)
qed

subsection \<open>Normalising text that has no markup\<close>












section \<open>Properties of the automation loop\<close>

subsection \<open>Phases along a trace\<close>

lemma observe_all_append:
  "observe_all p (xs @ ys) = (case observe_all p xs of None \<Rightarrow> None | Some q \<Rightarrow> observe_all q ys)"
  by (induction xs arbitrary: p) (auto split: option.splits)

lemma observe_all_appendI:
  "observe_all p xs = Some q \<Longrightarrow> observe_all q ys = Some r \<Longrightarrow> observe_all p (xs @ ys) = Some r"
  by (simp add: observe_all_append)

lemma observe_all_Log [simp]: "observe_all p (Log line # es) = observe_all p es"
  by simp

lemma observe_Halted: "observe Halted e = Some q \<Longrightarrow> is_log e \<and> q = Halted"
  by (cases "(Halted, e)" rule: observe.cases) (auto simp: is_log_def)

lemma observe_all_Halted: "observe_all Halted es = Some q \<Longrightarrow> list_all is_log es \<and> q = Halted"
proof (induction es)
  case Nil
  then show ?case by simp
next
  case (Cons e es)
  from Cons.prems obtain r where r: "observe Halted e = Some r" "observe_all r es = Some q"
    by (auto split: option.splits)
  with observe_Halted [of e r] Cons.IH show ?case by simp
qed

lemma observe_all_stop_seen:
  "observe_all p es = Some q \<Longrightarrow> StopCheck True \<in> set es \<Longrightarrow> q = Halted"
proof (induction es arbitrary: p)
  case Nil
  then show ?case by simp
next
  case (Cons e es)
  from Cons.prems(1) obtain r where r: "observe p e = Some r" "observe_all r es = Some q"
    by (auto split: option.splits)
  show ?case
  proof (cases "e = StopCheck True")
    case True
    with r have "r = Halted" by (auto split: if_splits)
    with r observe_all_Halted show ?thesis by blast
  next
    case False
    with Cons.prems(2) have "StopCheck True \<in> set es" by simp
    with Cons.IH r show ?thesis by blast
  qed
qed





subsection \<open>The phases of the parts of the loop body\<close>
















lemma observe_solver_line [simp]: "observe p (solver_line letter) = Some p"
  by (simp add: solver_line_def)






subsection \<open>Cancellation\<close>




subsection \<open>Selecting the option\<close>



subsection \<open>A stale option\<close>



end
